theory Spec2Isabelle
  imports Complex_Main
begin

section \<open>Python values used by \<open>data_utils.py\<close>\<close>

text \<open>
  The two functions of \<open>src/data_utils.py\<close> work on strings, on Python floats and on
  naive \<open>datetime\<close> values. Strings are ASCII \<open>char\<close> lists. A float is either one of the
  three special values or a finite number, and a finite double is modelled by the real
  number it denotes: arithmetic on finite values is exact here (no rounding to 53 bits, no
  overflow to infinity, no signed zero).
\<close>

datatype pyfloat = Fin real | PInf | NInf | NaN

datatype py_exc = ValueError

text \<open>Truthiness of a float (\<open>not iv\<close>) and the comparison \<open>iv <= 0\<close>.\<close>

fun is_falsy :: "pyfloat \<Rightarrow> bool" where
  "is_falsy (Fin x) = (x = 0)"
| "is_falsy _ = False"

fun le_zero :: "pyfloat \<Rightarrow> bool" where
  "le_zero (Fin x) = (x \<le> 0)"
| "le_zero NInf = True"
| "le_zero PInf = False"
| "le_zero NaN = False"

text \<open>Division and multiplication by a positive finite constant (\<open>iv / 100\<close>, \<open>iv * 100\<close>).\<close>

fun div_const :: "pyfloat \<Rightarrow> real \<Rightarrow> pyfloat" where
  "div_const (Fin x) c = Fin (x / c)"
| "div_const v c = v"

fun mul_const :: "pyfloat \<Rightarrow> real \<Rightarrow> pyfloat" where
  "mul_const (Fin x) c = Fin (x * c)"
| "mul_const v c = v"

text \<open>The product of two floats (\<open>option_price * spot_price\<close>), IEEE special cases included.\<close>

fun sign_inf :: "bool \<Rightarrow> pyfloat" where
  "sign_inf neg = (if neg then NInf else PInf)"

fun is_neg :: "pyfloat \<Rightarrow> bool" where
  "is_neg (Fin x) = (x < 0)"
| "is_neg NInf = True"
| "is_neg _ = False"

fun py_mul :: "pyfloat \<Rightarrow> pyfloat \<Rightarrow> pyfloat" where
  "py_mul NaN _ = NaN"
| "py_mul _ NaN = NaN"
| "py_mul (Fin a) (Fin b) = Fin (a * b)"
| "py_mul a b = (if a = Fin 0 \<or> b = Fin 0 then NaN else sign_inf (is_neg a \<noteq> is_neg b))"

text \<open>
  The builtin \<open>round(x, n)\<close>: a float that is not finite is returned as it is, a finite one
  is rounded to \<open>n\<close> decimal places, ties to even.
\<close>

definition round_half_even :: "real \<Rightarrow> int" where
  "round_half_even x =
     (let f = \<lfloor>x\<rfloor>; d = x - of_int f
      in if d < 1 / 2 then f else if 1 / 2 < d then f + 1 else if even f then f else f + 1)"

fun py_round :: "pyfloat \<Rightarrow> nat \<Rightarrow> pyfloat" where
  "py_round (Fin x) n = Fin (of_int (round_half_even (x * 10 ^ n)) / 10 ^ n)"
| "py_round v n = v"

section \<open>Strings: \<open>str.split\<close>, character classes, \<open>int\<close> and \<open>float\<close>\<close>

text \<open>\<open>s.split(c)\<close> with a one-character separator: never empty, one more field than separators.\<close>

fun split_on :: "char \<Rightarrow> string \<Rightarrow> string list" where
  "split_on c [] = [] # []"
| "split_on c (x # xs) =
     (if x = c then [] # split_on c xs
      else (case split_on c xs of p # ps \<Rightarrow> (x # p) # ps | [] \<Rightarrow> [x] # []))"

definition is_digit :: "char \<Rightarrow> bool" where
  "is_digit c = (c \<in> set ''0123456789'')"

definition is_nonzero_digit :: "char \<Rightarrow> bool" where
  "is_nonzero_digit c = (c \<in> set ''123456789'')"

text \<open>The ASCII characters for which \<open>str.isspace\<close> holds; the regex class \<open>\s\<close> is the same set.\<close>

definition is_space :: "char \<Rightarrow> bool" where
  "is_space c = (c \<in> set [CHR 0x09, CHR 0x0A, CHR 0x0B, CHR 0x0C, CHR 0x0D,
                           CHR 0x1C, CHR 0x1D, CHR 0x1E, CHR 0x1F, CHR '' ''])"

definition lower :: "char \<Rightarrow> char" where
  "lower c =
     (case map_of (zip ''ABCDEFGHIJKLMNOPQRSTUVWXYZ'' ''abcdefghijklmnopqrstuvwxyz'') c of
        None \<Rightarrow> c
      | Some l \<Rightarrow> l)"

definition digit_val :: "char \<Rightarrow> nat" where
  "digit_val c = of_char c - 48"

text \<open>The value of a string of decimal digits, most significant first.\<close>

definition digits_val :: "string \<Rightarrow> nat" where
  "digits_val ds = foldl (\<lambda>acc c. 10 * acc + digit_val c) 0 ds"

text \<open>\<open>int(tok)\<close> on a token the regex has matched: digits, after optional leading whitespace.\<close>

definition py_int :: "string \<Rightarrow> nat" where
  "py_int tok = digits_val (dropWhile is_space tok)"

definition strip :: "string \<Rightarrow> string" where
  "strip s = rev (dropWhile is_space (rev (dropWhile is_space s)))"

text \<open>
  \<open>digitpart ::= digit (["_"] digit)*\<close>: the longest such prefix, its digits without the
  underscores, and what follows it.
\<close>

fun digitpart_tail :: "string \<Rightarrow> string \<times> string" where
  "digitpart_tail (a # b # r) =
     (if is_digit a then (let (ds, r') = digitpart_tail (b # r) in (a # ds, r'))
      else if a = CHR ''_'' \<and> is_digit b then (let (ds, r') = digitpart_tail (b # r) in (ds, r'))
      else ([], a # b # r))"
| "digitpart_tail [a] = (if is_digit a then ([a], []) else ([], [a]))"
| "digitpart_tail [] = ([], [])"

definition digitpart :: "string \<Rightarrow> (string \<times> string) option" where
  "digitpart s =
     (case s of [] \<Rightarrow> None
      | a # r \<Rightarrow> if is_digit a then (let (ds, r') = digitpart_tail r in Some (a # ds, r')) else None)"

text \<open>\<open>number ::= [digitpart] "." digitpart | digitpart ["."]\<close>: integer digits, fraction digits, rest.\<close>

definition float_number :: "string \<Rightarrow> (string \<times> string \<times> string) option" where
  "float_number s =
     (case digitpart s of
        Some (ip, r) \<Rightarrow>
          (case r of
             c # r' \<Rightarrow>
               if c = CHR ''.'' then
                 (case digitpart r' of Some (fp, r'') \<Rightarrow> Some (ip, fp, r'') | None \<Rightarrow> Some (ip, [], r'))
               else Some (ip, [], r)
           | [] \<Rightarrow> Some (ip, [], []))
      | None \<Rightarrow>
          (case s of
             c # r' \<Rightarrow>
               if c = CHR ''.'' then
                 (case digitpart r' of Some (fp, r'') \<Rightarrow> Some ([], fp, r'') | None \<Rightarrow> None)
               else None
           | [] \<Rightarrow> None))"

text \<open>An optional sign: whether it is a minus, and the rest.\<close>

definition opt_sign :: "string \<Rightarrow> bool \<times> string" where
  "opt_sign s =
     (case s of c # r \<Rightarrow> if c = CHR ''-'' then (True, r) else if c = CHR ''+'' then (False, r) else (False, s)
      | [] \<Rightarrow> (False, []))"

text \<open>\<open>exponent ::= ("e" | "E") [sign] digitpart\<close>, to the end of the string; absent is 0.\<close>

definition float_exponent :: "string \<Rightarrow> int option" where
  "float_exponent s =
     (case s of [] \<Rightarrow> Some 0
      | c # r \<Rightarrow>
          if lower c = CHR ''e'' then
            (let (neg, r') = opt_sign r
             in case digitpart r' of
                  Some (ds, []) \<Rightarrow> Some (if neg then - int (digits_val ds) else int (digits_val ds))
                | _ \<Rightarrow> None)
          else None)"

definition pow10 :: "int \<Rightarrow> real" where
  "pow10 e = (if 0 \<le> e then 10 ^ nat e else 1 / 10 ^ nat (- e))"

text \<open>
  \<open>float(s)\<close> on a string: surrounding whitespace is stripped, then
  \<open>[sign] (floatnumber | "inf" | "infinity" | "nan")\<close>, case-insensitive. \<open>None\<close> is the
  \<open>ValueError\<close> that \<open>float\<close> raises on anything else.
\<close>

definition py_float :: "string \<Rightarrow> pyfloat option" where
  "py_float s =
     (let (neg, t) = opt_sign (strip s); w = map lower t
      in if w = ''inf'' \<or> w = ''infinity'' then Some (sign_inf neg)
         else if w = ''nan'' then Some NaN
         else (case float_number t of
                 None \<Rightarrow> None
               | Some (ip, fp, r) \<Rightarrow>
                   (case float_exponent r of
                      None \<Rightarrow> None
                    | Some e \<Rightarrow>
                        (let m = real (digits_val ip) + real (digits_val fp) / 10 ^ length fp;
                             v = m * pow10 e
                         in Some (Fin (if neg then - v else v))))))"

section \<open>Naive datetimes\<close>

record datetime =
  year :: nat
  month :: nat
  day :: nat
  hour :: nat
  minute :: nat
  second :: nat
  microsecond :: nat

definition is_leap :: "nat \<Rightarrow> bool" where
  "is_leap y = (y mod 4 = 0 \<and> (y mod 100 \<noteq> 0 \<or> y mod 400 = 0))"

definition days_in_month :: "nat \<Rightarrow> nat \<Rightarrow> nat" where
  "days_in_month y m =
     (if m = 2 then (if is_leap y then 29 else 28)
      else if m \<in> {4, 6, 9, 11} then 30 else 31)"

definition days_before_year :: "nat \<Rightarrow> int" where
  "days_before_year y = (let z = int y - 1 in z * 365 + z div 4 - z div 100 + z div 400)"

definition days_before_month :: "nat \<Rightarrow> nat \<Rightarrow> int" where
  "days_before_month y m =
     int ([0, 0, 31, 59, 90, 120, 151, 181, 212, 243, 273, 304, 334] ! m)
       + (if 2 < m \<and> is_leap y then 1 else 0)"

definition toordinal :: "datetime \<Rightarrow> int" where
  "toordinal d = days_before_year (year d) + days_before_month (year d) (month d) + int (day d)"

text \<open>
  The constructor \<open>datetime(y, m, d, H, M, S)\<close> raises \<open>ValueError\<close> on a field out of range
  (\<open>None\<close> here): the year is 1..9999, the day exists in the month, the second is below 60.
\<close>

definition mk_datetime :: "nat \<Rightarrow> nat \<Rightarrow> nat \<Rightarrow> nat \<Rightarrow> nat \<Rightarrow> nat \<Rightarrow> datetime option" where
  "mk_datetime y m d H M S =
     (if 1 \<le> y \<and> y \<le> 9999 \<and> 1 \<le> m \<and> m \<le> 12 \<and> 1 \<le> d \<and> d \<le> days_in_month y m
         \<and> H \<le> 23 \<and> M \<le> 59 \<and> S \<le> 59
      then Some \<lparr>year = y, month = m, day = d, hour = H, minute = M, second = S, microsecond = 0\<rparr>
      else None)"

text \<open>
  \<open>(a - b).total_seconds()\<close> of two naive datetimes: the difference in days, seconds and
  microseconds is an exact integer number of microseconds, divided by \<open>10^6\<close>.
\<close>

definition seconds_of_day :: "datetime \<Rightarrow> int" where
  "seconds_of_day d = int (hour d) * 3600 + int (minute d) * 60 + int (second d)"

definition diff_microseconds :: "datetime \<Rightarrow> datetime \<Rightarrow> int" where
  "diff_microseconds a b =
     ((toordinal a - toordinal b) * 86400 + (seconds_of_day a - seconds_of_day b)) * 1000000
       + (int (microsecond a) - int (microsecond b))"

definition total_seconds :: "datetime \<Rightarrow> datetime \<Rightarrow> real" where
  "total_seconds a b = real_of_int (diff_microseconds a b) / 1000000"

section \<open>\<open>datetime.strptime\<close> for the three formats of the source\<close>

text \<open>
  \<open>strptime\<close> compiles the format to a regular expression (case-insensitive, each run of
  whitespace of the format replaced by \<open>\s+\<close>), takes the first match of it at the start of
  the string in the order a backtracking matcher finds matches, and raises \<open>ValueError\<close> when
  there is none or when the match stops before the end of the string. A directive is modelled
  by the list of its matches in that order, each the matched text and the rest of the string.
  The month abbreviations are those of the C locale.
\<close>

type_synonym rx = "string \<Rightarrow> (string \<times> string) list"

definition tok1 :: "(char \<Rightarrow> bool) \<Rightarrow> rx" where
  "tok1 P s = (case s of a # r \<Rightarrow> if P a then [([a], r)] else [] | [] \<Rightarrow> [])"

definition tok2 :: "(char \<Rightarrow> bool) \<Rightarrow> (char \<Rightarrow> bool) \<Rightarrow> rx" where
  "tok2 P Q s = (case s of a # b # r \<Rightarrow> if P a \<and> Q b then [([a, b], r)] else [] | _ \<Rightarrow> [])"

text \<open>\<open>%d\<close> is \<open>3[0-1]|[1-2]\d|0[1-9]|[1-9]| [1-9]\<close>.\<close>

definition rx_d :: rx where
  "rx_d s = tok2 (\<lambda>c. c = CHR ''3'') (\<lambda>c. c \<in> set ''01'') s
          @ tok2 (\<lambda>c. c \<in> set ''12'') is_digit s
          @ tok2 (\<lambda>c. c = CHR ''0'') is_nonzero_digit s
          @ tok1 is_nonzero_digit s
          @ tok2 (\<lambda>c. c = CHR '' '') is_nonzero_digit s"

text \<open>\<open>%m\<close> is \<open>1[0-2]|0[1-9]|[1-9]\<close>.\<close>

definition rx_m :: rx where
  "rx_m s = tok2 (\<lambda>c. c = CHR ''1'') (\<lambda>c. c \<in> set ''012'') s
          @ tok2 (\<lambda>c. c = CHR ''0'') is_nonzero_digit s
          @ tok1 is_nonzero_digit s"

text \<open>\<open>%H\<close> is \<open>2[0-3]|[0-1]\d|\d\<close>, \<open>%M\<close> is \<open>[0-5]\d|\d\<close>, \<open>%S\<close> is \<open>6[0-1]|[0-5]\d|\d\<close>.\<close>

definition rx_H :: rx where
  "rx_H s = tok2 (\<lambda>c. c = CHR ''2'') (\<lambda>c. c \<in> set ''0123'') s
          @ tok2 (\<lambda>c. c \<in> set ''01'') is_digit s
          @ tok1 is_digit s"

definition rx_M :: rx where
  "rx_M s = tok2 (\<lambda>c. c \<in> set ''012345'') is_digit s @ tok1 is_digit s"

definition rx_S :: rx where
  "rx_S s = tok2 (\<lambda>c. c = CHR ''6'') (\<lambda>c. c \<in> set ''01'') s
          @ tok2 (\<lambda>c. c \<in> set ''012345'') is_digit s
          @ tok1 is_digit s"

text \<open>\<open>%y\<close> is \<open>\d\d\<close>, \<open>%Y\<close> is \<open>\d\d\d\d\<close>.\<close>

definition rx_y :: rx where
  "rx_y s = tok2 is_digit is_digit s"

definition rx_Y :: rx where
  "rx_Y s =
     (case s of a # b # c # d # r \<Rightarrow>
        if is_digit a \<and> is_digit b \<and> is_digit c \<and> is_digit d then [([a, b, c, d], r)] else []
      | _ \<Rightarrow> [])"

text \<open>\<open>%b\<close>: one of the twelve abbreviated month names, in any case.\<close>

definition a_month :: "string list" where
  "a_month = ['''', ''jan'', ''feb'', ''mar'', ''apr'', ''may'', ''jun'',
              ''jul'', ''aug'', ''sep'', ''oct'', ''nov'', ''dec'']"

definition rx_b :: rx where
  "rx_b s =
     (case s of a # b # c # r \<Rightarrow>
        if map lower [a, b, c] \<in> set (tl a_month) then [([a, b, c], r)] else []
      | _ \<Rightarrow> [])"

text \<open>A literal character of the format, and \<open>\s+\<close> (greedy: the longest run first).\<close>

definition rx_lit :: "char \<Rightarrow> string \<Rightarrow> string list" where
  "rx_lit c s = (case s of a # r \<Rightarrow> if a = c then [r] else [] | [] \<Rightarrow> [])"

definition rx_ws :: "string \<Rightarrow> string list" where
  "rx_ws s = map (\<lambda>k. drop k s) (rev [1 ..< Suc (length (takeWhile is_space s))])"

text \<open>\<open>a_month.index(found['b'].lower())\<close>.\<close>

definition month_index :: "string \<Rightarrow> nat" where
  "month_index tok = length (takeWhile (\<lambda>n. n \<noteq> map lower tok) a_month)"

text \<open>The year of \<open>%y\<close>: 00..68 is 2000..2068, 69..99 is 1969..1999.\<close>

definition year_of_y :: "string \<Rightarrow> nat" where
  "year_of_y tok = (let y = py_int tok in if y \<le> 68 then y + 2000 else y + 1900)"

text \<open>The matches of \<open>%H:%M:%S\<close>, shared by the two formats that end with it.\<close>

definition rx_HMS :: "string \<Rightarrow> ((string \<times> string \<times> string) \<times> string) list" where
  "rx_HMS s =
     [((H, M, S), r5). (H, r1) \<leftarrow> rx_H s, r2 \<leftarrow> rx_lit (CHR '':'') r1, (M, r3) \<leftarrow> rx_M r2,
                       r4 \<leftarrow> rx_lit (CHR '':'') r3, (S, r5) \<leftarrow> rx_S r4]"

text \<open>The first match decides; \<open>None\<close> is the \<open>ValueError\<close> of \<open>strptime\<close>.\<close>

definition first_full_match :: "('a \<times> string) list \<Rightarrow> 'a option" where
  "first_full_match ms = (case ms of [] \<Rightarrow> None | (v, r) # _ \<Rightarrow> if r = [] then Some v else None)"

text \<open>\<open>datetime.strptime(s, "%d%b%y %H:%M:%S")\<close>.\<close>

definition rx_dby :: "string \<Rightarrow> ((string \<times> string \<times> string) \<times> string) list" where
  "rx_dby s = [((d, b, y), r3). (d, r1) \<leftarrow> rx_d s, (b, r2) \<leftarrow> rx_b r1, (y, r3) \<leftarrow> rx_y r2]"

definition strptime_dby_HMS :: "string \<Rightarrow> datetime option" where
  "strptime_dby_HMS s =
     (case first_full_match
             [((dby, hms), r3). (dby, r1) \<leftarrow> rx_dby s, r2 \<leftarrow> rx_ws r1, (hms, r3) \<leftarrow> rx_HMS r2] of
        None \<Rightarrow> None
      | Some ((d, b, y), (H, M, S)) \<Rightarrow>
          mk_datetime (year_of_y y) (month_index b) (py_int d) (py_int H) (py_int M) (py_int S))"

text \<open>\<open>datetime.strptime(s, "%Y-%m-%d %H:%M:%S")\<close> and \<open>datetime.strptime(s, "%Y-%m-%d")\<close>.\<close>

definition rx_Ymd :: "string \<Rightarrow> ((string \<times> string \<times> string) \<times> string) list" where
  "rx_Ymd s =
     [((Y, m, d), r5). (Y, r1) \<leftarrow> rx_Y s, r2 \<leftarrow> rx_lit (CHR ''-'') r1, (m, r3) \<leftarrow> rx_m r2,
                       r4 \<leftarrow> rx_lit (CHR ''-'') r3, (d, r5) \<leftarrow> rx_d r4]"

definition strptime_Ymd_HMS :: "string \<Rightarrow> datetime option" where
  "strptime_Ymd_HMS s =
     (case first_full_match
             [((ymd, hms), r3). (ymd, r1) \<leftarrow> rx_Ymd s, r2 \<leftarrow> rx_ws r1, (hms, r3) \<leftarrow> rx_HMS r2] of
        None \<Rightarrow> None
      | Some ((Y, m, d), (H, M, S)) \<Rightarrow>
          mk_datetime (py_int Y) (py_int m) (py_int d) (py_int H) (py_int M) (py_int S))"

definition strptime_Ymd :: "string \<Rightarrow> datetime option" where
  "strptime_Ymd s =
     (case first_full_match (rx_Ymd s) of
        None \<Rightarrow> None
      | Some (Y, m, d) \<Rightarrow> mk_datetime (py_int Y) (py_int m) (py_int d) 0 0 0)"

section \<open>The library \<open>py_vollib\<close> and the clock\<close>

text \<open>
  \<open>py_vollib\<close> is not part of the repository: the four functions imported from
  \<open>py_vollib.black_scholes.greeks.numerical\<close> and \<open>implied_volatility\<close> are parameters of
  the model. Each takes the arguments the source passes, in the source's order, and returns
  \<open>None\<close> when it raises an exception. The reading of \<open>datetime.utcnow()\<close> is a parameter too.
\<close>

type_synonym greek_fn =
  "char \<Rightarrow> pyfloat \<Rightarrow> pyfloat \<Rightarrow> pyfloat \<Rightarrow> pyfloat \<Rightarrow> pyfloat \<Rightarrow> pyfloat option"

record vollib =
  lib_delta :: greek_fn
  lib_gamma :: greek_fn
  lib_vega :: greek_fn
  lib_theta :: greek_fn
  lib_implied_volatility ::
    "pyfloat \<Rightarrow> pyfloat \<Rightarrow> pyfloat \<Rightarrow> pyfloat \<Rightarrow> pyfloat \<Rightarrow> char \<Rightarrow> pyfloat option"

section \<open>\<open>calculate_greeks\<close> and \<open>calculate_iv_from_price\<close>\<close>

text \<open>
  The dictionary that \<open>calculate_greeks\<close> returns has the four keys \<open>delta\<close>, \<open>gamma\<close>,
  \<open>vega\<close>, \<open>theta\<close> and at most one more: \<open>"expired": True\<close>, or \<open>"error"\<close> with one of four
  messages. The tag names which; the text of the exception that two of the messages end
  with is not modelled.
\<close>

datatype tag =
    Computed
  | Expired
  | Invalid_instrument_format
  | Date_parse_error
  | Invalid_IV
  | Greeks_calc_error

record greeks =
  delta :: pyfloat
  gamma :: pyfloat
  vega :: pyfloat
  theta :: pyfloat
  tag :: tag

definition zeroed :: "tag \<Rightarrow> greeks" where
  "zeroed tg = \<lparr>delta = Fin 0, gamma = Fin 0, vega = Fin 0, theta = Fin 0, tag = tg\<rparr>"

text \<open>
  Lines 18--26 (and 70--78): the fields of the instrument name. \<open>Inr None\<close> is the wrong
  field count; \<open>Inl ValueError\<close> is the exception of \<open>float(parts[2])\<close>, which no \<open>try\<close>
  encloses.
\<close>

record instrument_fields =
  strike :: pyfloat
  option_type :: char
  expiry_str :: string

definition parse_fields :: "string \<Rightarrow> py_exc + instrument_fields option" where
  "parse_fields instrument =
     (let parts = split_on (CHR ''-'') instrument
      in if length parts \<noteq> 4 then Inr None
         else (case py_float (parts ! 2) of
                 None \<Rightarrow> Inl ValueError
               | Some k \<Rightarrow>
                   Inr (Some \<lparr>strike = k,
                              option_type = (if parts ! 3 = ''C'' then CHR ''c'' else CHR ''p''),
                              expiry_str = parts ! 1 @ '' 08:00:00''\<rparr>)))"

text \<open>Lines 30--36: the observation instant.\<close>

definition snapshot_now :: "datetime \<Rightarrow> string option \<Rightarrow> datetime option" where
  "snapshot_now utcnow snapshot_date_str =
     (case snapshot_date_str of
        None \<Rightarrow> Some utcnow
      | Some s \<Rightarrow>
          if s = [] then Some utcnow
          else if CHR '' '' \<in> set s then strptime_Ymd_HMS s
          else strptime_Ymd s)"

text \<open>Lines 27--46: the body of the first \<open>try\<close> and what its \<open>except\<close> catches.\<close>

datatype expiry_outcome = Date_error | Is_expired | Time_left real

definition time_to_expiry :: "datetime \<Rightarrow> string \<Rightarrow> string option \<Rightarrow> expiry_outcome" where
  "time_to_expiry utcnow expiry snapshot_date_str =
     (case strptime_dby_HMS expiry of
        None \<Rightarrow> Date_error
      | Some expiry_dt \<Rightarrow>
          (case snapshot_now utcnow snapshot_date_str of
             None \<Rightarrow> Date_error
           | Some now \<Rightarrow>
               (let time_diff = total_seconds expiry_dt now
                in if time_diff \<le> 0 then Is_expired
                   else Time_left (time_diff / (365.25 * 24 * 3600)))))"

text \<open>Line 49: \<open>not iv or iv <= 0\<close>.\<close>

definition invalid_iv :: "pyfloat option \<Rightarrow> bool" where
  "invalid_iv iv = (case iv of None \<Rightarrow> True | Some v \<Rightarrow> is_falsy v \<or> le_zero v)"

text \<open>Lines 56--64: the four library calls, in order, each rounded; any exception is caught.\<close>

definition greeks_try ::
  "vollib \<Rightarrow> char \<Rightarrow> pyfloat \<Rightarrow> pyfloat \<Rightarrow> pyfloat \<Rightarrow> pyfloat \<Rightarrow> pyfloat \<Rightarrow> greeks" where
  "greeks_try L flag S K t r sigma =
     (case lib_delta L flag S K t r sigma of
        None \<Rightarrow> zeroed Greeks_calc_error
      | Some d \<Rightarrow>
     (case lib_gamma L flag S K t r sigma of
        None \<Rightarrow> zeroed Greeks_calc_error
      | Some g \<Rightarrow>
     (case lib_vega L flag S K t r sigma of
        None \<Rightarrow> zeroed Greeks_calc_error
      | Some v \<Rightarrow>
     (case lib_theta L flag S K t r sigma of
        None \<Rightarrow> zeroed Greeks_calc_error
      | Some th \<Rightarrow>
          \<lparr>delta = py_round d 4, gamma = py_round g 6, vega = py_round v 4,
           theta = py_round th 4, tag = Computed\<rparr>))))"

definition calculate_greeks ::
  "vollib \<Rightarrow> datetime \<Rightarrow> string \<Rightarrow> pyfloat \<Rightarrow> pyfloat option \<Rightarrow> string option
     \<Rightarrow> py_exc + greeks" where
  "calculate_greeks L utcnow instrument spot_price iv snapshot_date_str =
     (case parse_fields instrument of
        Inl e \<Rightarrow> Inl e
      | Inr None \<Rightarrow> Inr (zeroed Invalid_instrument_format)
      | Inr (Some f) \<Rightarrow>
          (case time_to_expiry utcnow (expiry_str f) snapshot_date_str of
             Date_error \<Rightarrow> Inr (zeroed Date_parse_error)
           | Is_expired \<Rightarrow> Inr (zeroed Expired)
           | Time_left t \<Rightarrow>
               if invalid_iv iv then Inr (zeroed Invalid_IV)
               else (let sigma = div_const (the iv) 100; r = Fin 0.05
                     in Inr (greeks_try L (option_type f) spot_price (strike f) (Fin t) r sigma))))"

text \<open>\<open>calculate_iv_from_price\<close>: \<open>Inr None\<close> is the returned \<open>None\<close>.\<close>

definition calculate_iv_from_price ::
  "vollib \<Rightarrow> datetime \<Rightarrow> string \<Rightarrow> pyfloat \<Rightarrow> pyfloat \<Rightarrow> string option
     \<Rightarrow> py_exc + pyfloat option" where
  "calculate_iv_from_price L utcnow instrument spot_price option_price snapshot_date_str =
     (case parse_fields instrument of
        Inl e \<Rightarrow> Inl e
      | Inr None \<Rightarrow> Inr None
      | Inr (Some f) \<Rightarrow>
          (case time_to_expiry utcnow (expiry_str f) snapshot_date_str of
             Date_error \<Rightarrow> Inr None
           | Is_expired \<Rightarrow> Inr None
           | Time_left t \<Rightarrow>
               (let r = Fin 0.05; option_price_usd = py_mul option_price spot_price
                in case lib_implied_volatility L option_price_usd spot_price (strike f) (Fin t) r
                          (option_type f) of
                     None \<Rightarrow> Inr None
                   | Some iv \<Rightarrow> Inr (Some (mul_const iv 100)))))"

text \<open>
  A stand-in for the library, to run the model on concrete inputs: every Greek is a third
  of the volatility it is given, and the solver returns the price it is given.
\<close>

definition sample_lib :: vollib where
  "sample_lib =
     \<lparr>lib_delta = (\<lambda>flag S K t r sigma. Some (div_const sigma 3)),
      lib_gamma = (\<lambda>flag S K t r sigma. Some (div_const sigma 3)),
      lib_vega = (\<lambda>flag S K t r sigma. Some (div_const sigma 3)),
      lib_theta = (\<lambda>flag S K t r sigma. Some (div_const sigma 3)),
      lib_implied_volatility = (\<lambda>price S K t r flag. Some price)\<rparr>"

definition at_date :: "nat \<Rightarrow> nat \<Rightarrow> nat \<Rightarrow> datetime" where
  "at_date y m d = \<lparr>year = y, month = m, day = d, hour = 0, minute = 0, second = 0, microsecond = 0\<rparr>"

text \<open>
  The reading of the spec's words ``the second field parses as
  day-month-abbreviation-year'': \<open>datetime.strptime(field, "%d%b%y")\<close>, the date at midnight.
\<close>

definition strptime_dby :: "string \<Rightarrow> datetime option" where
  "strptime_dby s =
     (case first_full_match (rx_dby s) of
        None \<Rightarrow> None
      | Some (d, b, y) \<Rightarrow> mk_datetime (year_of_y y) (month_index b) (py_int d) 0 0 0)"

section \<open>Evaluation on concrete strings\<close>

lemmas char_defs = is_digit_def is_nonzero_digit_def is_space_def lower_def digit_val_def
  digits_val_def py_int_def

lemmas float_defs = py_float_def opt_sign_def strip_def float_number_def digitpart_def
  float_exponent_def pow10_def char_defs

lemmas rx_defs = tok1_def tok2_def rx_d_def rx_m_def rx_H_def rx_M_def rx_S_def rx_y_def rx_Y_def
  rx_b_def rx_lit_def rx_ws_def rx_HMS_def rx_dby_def rx_Ymd_def a_month_def month_index_def
  year_of_y_def first_full_match_def char_defs

lemmas date_defs = mk_datetime_def days_in_month_def is_leap_def toordinal_def
  days_before_year_def days_before_month_def seconds_of_day_def diff_microseconds_def
  total_seconds_def at_date_def

section \<open>The expiry string always ends with the settlement time\<close>

text \<open>
  A directive that matches digits or letters finds the same matches in \<open>s\<close> and in \<open>s\<close>
  followed by \<open>" 08:00:00"\<close>: no match can reach into the appended text, which starts with
  a space and a zero.
\<close>

lemma tok1_settle:
  "\<not> P (CHR '' '') \<Longrightarrow>
     tok1 P (s @ CHR '' '' # t) = map (apsnd (\<lambda>r. r @ CHR '' '' # t)) (tok1 P s)"
  by (cases s) (simp_all add: tok1_def)

lemma tok2_settle:
  assumes "\<not> Q (CHR '' '')" and "\<not> (P (CHR '' '') \<and> Q (CHR ''0''))"
  shows "tok2 P Q (s @ CHR '' '' # CHR ''0'' # t)
           = map (apsnd (\<lambda>r. r @ CHR '' '' # CHR ''0'' # t)) (tok2 P Q s)"
proof (cases s)
  case Nil
  with assms show ?thesis by (auto simp add: tok2_def)
next
  case (Cons a s')
  with assms show ?thesis by (cases s') (simp_all add: tok2_def)
qed

lemma rx_d_settle:
  "rx_d (s @ CHR '' '' # CHR ''0'' # t) = map (apsnd (\<lambda>r. r @ CHR '' '' # CHR ''0'' # t)) (rx_d s)"
  by (simp add: rx_d_def tok1_settle tok2_settle is_digit_def is_nonzero_digit_def)

lemma rx_y_settle:
  "rx_y (s @ CHR '' '' # CHR ''0'' # t) = map (apsnd (\<lambda>r. r @ CHR '' '' # CHR ''0'' # t)) (rx_y s)"
  by (simp add: rx_y_def tok2_settle is_digit_def)

lemma rx_b_settle:
  "rx_b (s @ CHR '' '' # CHR ''0'' # t) = map (apsnd (\<lambda>r. r @ CHR '' '' # CHR ''0'' # t)) (rx_b s)"
proof -
  have sp: "lower (CHR '' '') = CHR '' ''" "lower (CHR ''0'') = CHR ''0''"
    by (simp_all add: lower_def)
  show ?thesis
  proof (cases s)
    case Nil
    then show ?thesis by (simp add: rx_b_def a_month_def sp split: list.splits)
  next
    case (Cons a s1)
    show ?thesis
    proof (cases s1)
      case Nil
      with Cons show ?thesis by (simp add: rx_b_def a_month_def sp)
    next
      case (Cons b s2)
      with \<open>s = a # s1\<close> show ?thesis by (cases s2) (simp_all add: rx_b_def a_month_def sp)
    qed
  qed
qed

lemma rx_dby_settle:
  "rx_dby (s @ CHR '' '' # CHR ''0'' # t)
     = map (apsnd (\<lambda>r. r @ CHR '' '' # CHR ''0'' # t)) (rx_dby s)"
  by (simp add: rx_dby_def rx_d_settle rx_b_settle rx_y_settle map_concat comp_def split_def)

lemma rx_HMS_settle:
  "rx_HMS ''08:00:00'' = [((''08'', ''00'', ''00''), []), ((''08'', ''00'', ''0''), ''0'')]"
  by (simp add: rx_HMS_def rx_H_def rx_M_def rx_S_def rx_lit_def tok1_def tok2_def is_digit_def)

lemma rx_ws_settle: "rx_ws '' 08:00:00'' = [''08:00:00'']"
  by (simp add: rx_ws_def is_space_def)

lemma py_int_settle: "py_int ''08'' = 8" "py_int ''00'' = 0"
  by (simp_all add: char_defs)

lemma mk_datetime_hour:
  "mk_datetime y m d 0 0 0 = Some dt \<Longrightarrow> mk_datetime y m d 8 0 0 = Some (dt\<lparr>hour := 8\<rparr>)"
  by (auto simp: mk_datetime_def split: if_splits)

lemma first_full_match_SomeD:
  "first_full_match ms = Some v \<Longrightarrow> \<exists>rest. ms = (v, []) # rest"
  by (auto simp: first_full_match_def split: list.splits if_splits)

lemma strptime_settle:
  assumes "strptime_dby e = Some dt"
  shows "strptime_dby_HMS (e @ '' 08:00:00'') = Some (dt\<lparr>hour := 8\<rparr>)"
proof -
  from assms obtain d b y where m: "first_full_match (rx_dby e) = Some (d, b, y)"
    and dt: "mk_datetime (year_of_y y) (month_index b) (py_int d) 0 0 0 = Some dt"
    by (auto simp: strptime_dby_def split: option.splits)
  from m obtain rest where "rx_dby e = ((d, b, y), []) # rest"
    by (auto dest: first_full_match_SomeD)
  then have "rx_dby (e @ '' 08:00:00'')
               = ((d, b, y), '' 08:00:00'') # map (apsnd (\<lambda>r. r @ '' 08:00:00'')) rest"
    by (simp add: rx_dby_settle)
  then have "first_full_match
               [((dby, hms), r3). (dby, r1) \<leftarrow> rx_dby (e @ '' 08:00:00''), r2 \<leftarrow> rx_ws r1,
                                  (hms, r3) \<leftarrow> rx_HMS r2]
             = Some ((d, b, y), (''08'', ''00'', ''00''))"
    by (simp add: rx_ws_settle rx_HMS_settle first_full_match_def)
  then show ?thesis
    by (simp add: strptime_dby_HMS_def py_int_settle mk_datetime_hour [OF dt])
qed

section \<open>Exceptions that reach the caller\<close>

text \<open>
  An instrument name that writes a decimal strike with the letter \<open>d\<close> for the decimal
  point, such as \<open>XRP_USDC-30JUN23-0d625-C\<close>, has four fields and a third field that
  \<open>float\<close> rejects.
\<close>

lemma parse_fields_decimal_strike: "parse_fields ''XRP_USDC-30JUN23-0d625-C'' = Inl ValueError"
  by (simp add: parse_fields_def float_defs)

text \<open>The only exception that leaves either function is the one of \<open>float(parts[2])\<close>.\<close>

lemma calculate_greeks_raises_iff:
  "(\<exists>e. calculate_greeks L utcnow instrument spot_price iv snap = Inl e) \<longleftrightarrow>
     length (split_on (CHR ''-'') instrument) = 4
       \<and> py_float (split_on (CHR ''-'') instrument ! 2) = None"
  by (auto simp: calculate_greeks_def parse_fields_def Let_def
           split: option.splits expiry_outcome.splits sum.splits)

lemma calculate_iv_from_price_raises_iff:
  "(\<exists>e. calculate_iv_from_price L utcnow instrument spot_price option_price snap = Inl e) \<longleftrightarrow>
     length (split_on (CHR ''-'') instrument) = 4
       \<and> py_float (split_on (CHR ''-'') instrument ! 2) = None"
  by (auto simp: calculate_iv_from_price_def parse_fields_def Let_def
           split: option.splits expiry_outcome.splits sum.splits)

text \<open>
  C1. The claim: \<open>calculate_greeks\<close> never lets an exception reach the caller, and a
  non-numeric strike field gives the zeroed result tagged with a parse error. The code: on
  the instrument \<open>XRP_USDC-30JUN23-0d625-C\<close> (four fields, strike field \<open>0d625\<close>) the
  \<open>ValueError\<close> of \<open>float(parts[2])\<close> leaves the function, whatever the other arguments are.
\<close>

theorem calculate_greeks_raises_on_non_numeric_strike:
  "calculate_greeks L utcnow ''XRP_USDC-30JUN23-0d625-C'' spot_price iv snapshot_date_str
     = Inl ValueError"
  by (simp add: calculate_greeks_def parse_fields_decimal_strike)

text \<open>
  C2. The claim: \<open>calculate_iv_from_price\<close> turns every failure, a non-numeric strike
  included, into \<open>None\<close> and never raises. The code: on the same instrument the
  \<open>ValueError\<close> of \<open>float(parts[2])\<close> leaves the function, whatever the other arguments are.
\<close>

theorem calculate_iv_from_price_raises_on_non_numeric_strike:
  "calculate_iv_from_price L utcnow ''XRP_USDC-30JUN23-0d625-C'' spot_price option_price
     snapshot_date_str = Inl ValueError"
  by (simp add: calculate_iv_from_price_def parse_fields_decimal_strike)

section \<open>The instrument parser\<close>



section \<open>Time to expiry and the order of the checks\<close>

lemma parse_fields_sample:
  "parse_fields ''BTC-27MAR26-80000-C''
     = Inr (Some \<lparr>strike = Fin 80000, option_type = CHR ''c'', expiry_str = ''27MAR26 08:00:00''\<rparr>)"
  by (simp add: parse_fields_def float_defs)

lemma strptime_expiry_sample:
  "strptime_dby_HMS ''27MAR26 08:00:00''
     = Some \<lparr>year = 2026, month = 3, day = 27, hour = 8, minute = 0, second = 0, microsecond = 0\<rparr>"
  by (simp add: strptime_dby_HMS_def rx_defs date_defs)

lemma strptime_Ymd_HMS_sample:
  "strptime_Ymd_HMS ''2026-02-03 12:00:00''
     = Some \<lparr>year = 2026, month = 2, day = 3, hour = 12, minute = 0, second = 0, microsecond = 0\<rparr>"
  by (simp add: strptime_Ymd_HMS_def rx_defs date_defs)

lemma strptime_Ymd_sample:
  "strptime_Ymd ''2026-03-27'' = Some (at_date 2026 3 27)"
  by (simp add: strptime_Ymd_def rx_defs date_defs)

text \<open>
  C4. For an instrument that parses and an observation instant \<open>now\<close> (the as-of string
  when one is given, the current UTC time when none is), the time to expiry is
  \<open>t = (expiry_dt - now) / (365.25 * 24 * 3600)\<close>. Whenever \<open>t \<le> 0\<close> the result is the
  zeroed Greeks tagged expired, for every IV (the IV is validated only afterwards); when
  \<open>0 < t\<close> and the IV is valid, the library is called with this \<open>t\<close>.
\<close>

theorem greeks_time_to_expiry:
  assumes "parse_fields instrument = Inr (Some f)"
    and "strptime_dby_HMS (expiry_str f) = Some expiry_dt"
    and "snapshot_now utcnow snapshot_date_str = Some now"
    and "t = total_seconds expiry_dt now / (365.25 * 24 * 3600)"
  shows "(t \<le> 0 \<longrightarrow>
            calculate_greeks L utcnow instrument spot_price iv snapshot_date_str
              = Inr \<lparr>delta = Fin 0, gamma = Fin 0, vega = Fin 0, theta = Fin 0, tag = Expired\<rparr>)
       \<and> (0 < t \<longrightarrow> \<not> invalid_iv iv \<longrightarrow>
            calculate_greeks L utcnow instrument spot_price iv snapshot_date_str
              = Inr (greeks_try L (option_type f) spot_price (strike f) (Fin t) (Fin 0.05)
                       (div_const (the iv) 100)))
       \<and> snapshot_now utcnow None = Some utcnow"
proof -
  have sgn: "t \<le> 0 \<longleftrightarrow> total_seconds expiry_dt now \<le> 0"
    unfolding assms(4) by (simp add: divide_le_0_iff)
  have "time_to_expiry utcnow (expiry_str f) snapshot_date_str
          = (if t \<le> 0 then Is_expired else Time_left t)"
    unfolding sgn using assms(2,3) unfolding assms(4) by (simp add: time_to_expiry_def)
  with assms(1) show ?thesis
    by (simp add: calculate_greeks_def snapshot_now_def zeroed_def)
qed

lemma total_seconds_sample1:
  "total_seconds \<lparr>year = 2026, month = 3, day = 27, hour = 8, minute = 0, second = 0, microsecond = 0\<rparr> (at_date 2026 4 2) = - 489600"
  by (simp add: date_defs)

lemma total_seconds_sample2:
  "total_seconds \<lparr>year = 2026, month = 3, day = 27, hour = 8, minute = 0, second = 0, microsecond = 0\<rparr> \<lparr>year = 2026, month = 2, day = 3, hour = 12, minute = 0, second = 0, microsecond = 0\<rparr> = 4478400"
  by (simp add: date_defs)

theorem greeks_time_to_expiry_witness:
  "parse_fields ''BTC-27MAR26-80000-C''
     = Inr (Some \<lparr>strike = Fin 80000, option_type = CHR ''c'', expiry_str = ''27MAR26 08:00:00''\<rparr>)
   \<and> strptime_dby_HMS ''27MAR26 08:00:00''
     = Some \<lparr>year = 2026, month = 3, day = 27, hour = 8, minute = 0, second = 0, microsecond = 0\<rparr>
   \<and> snapshot_now (at_date 2026 4 2) None = Some (at_date 2026 4 2)
   \<and> total_seconds \<lparr>year = 2026, month = 3, day = 27, hour = 8, minute = 0, second = 0, microsecond = 0\<rparr>
         (at_date 2026 4 2) / (365.25 * 24 * 3600) \<le> 0
   \<and> calculate_greeks sample_lib (at_date 2026 4 2) ''BTC-27MAR26-80000-C'' (Fin 100000)
         (Some (Fin 65.5)) None
     = Inr \<lparr>delta = Fin 0, gamma = Fin 0, vega = Fin 0, theta = Fin 0, tag = Expired\<rparr>
   \<and> snapshot_now (at_date 2026 4 2) (Some ''2026-02-03 12:00:00'')
     = Some \<lparr>year = 2026, month = 2, day = 3, hour = 12, minute = 0, second = 0, microsecond = 0\<rparr>
   \<and> calculate_greeks sample_lib (at_date 2026 4 2) ''BTC-27MAR26-80000-C'' (Fin 100000)
         (Some (Fin 65.5)) (Some ''2026-02-03 12:00:00'')
     = Inr \<lparr>delta = Fin 0.2183, gamma = Fin 0.218333, vega = Fin 0.2183, theta = Fin 0.2183,
            tag = Computed\<rparr>"
proof -
  have now1: "snapshot_now (at_date 2026 4 2) None = Some (at_date 2026 4 2)"
    by (simp add: snapshot_now_def)
  have now2: "snapshot_now (at_date 2026 4 2) (Some ''2026-02-03 12:00:00'')
     = Some \<lparr>year = 2026, month = 2, day = 3, hour = 12, minute = 0, second = 0, microsecond = 0\<rparr>"
    by (simp add: snapshot_now_def strptime_Ymd_HMS_sample)
  from greeks_time_to_expiry [OF parse_fields_sample _ now1 refl, of _ sample_lib "Fin 100000" "Some (Fin 65.5)"]
       greeks_time_to_expiry [OF parse_fields_sample _ now2 refl, of _ sample_lib "Fin 100000" "Some (Fin 65.5)"]
  show ?thesis
    by (simp add: parse_fields_sample strptime_expiry_sample now1 now2 invalid_iv_def total_seconds_sample1
          total_seconds_sample2 greeks_try_def sample_lib_def round_half_even_def Let_def)
qed

lemma time_to_expiry_Time_left:
  assumes "strptime_dby_HMS expiry = Some expiry_dt"
    and "snapshot_now utcnow snapshot_date_str = Some now"
    and "0 < total_seconds expiry_dt now"
  shows "time_to_expiry utcnow expiry snapshot_date_str
           = Time_left (total_seconds expiry_dt now / (365.25 * 24 * 3600))"
  using assms by (simp add: time_to_expiry_def)

lemma time_to_expiry_sample_expired:
  "time_to_expiry (at_date 2026 4 2) ''27MAR26 08:00:00'' None = Is_expired"
  by (simp add: time_to_expiry_def strptime_expiry_sample snapshot_now_def total_seconds_sample1)

section \<open>IV validation\<close>

text \<open>
  C5, as stated, fails: with no IV at all, an instrument that has expired is tagged
  expired, not invalid IV (observed on 2 April 2026, \<open>BTC-27MAR26-80000-C\<close>).
\<close>

theorem invalid_iv_counterexample:
  "calculate_greeks sample_lib (at_date 2026 4 2) ''BTC-27MAR26-80000-C'' (Fin 100000) None None
     = Inr \<lparr>delta = Fin 0, gamma = Fin 0, vega = Fin 0, theta = Fin 0, tag = Expired\<rparr>"
  by (simp add: calculate_greeks_def parse_fields_sample time_to_expiry_sample_expired zeroed_def)

text \<open>
  C5, amended. For an instrument that parses, observed strictly before its expiry instant,
  an IV that is absent or at most zero gives all four Greeks equal to zero, tagged invalid
  IV, whatever the spot price and the strike are.
\<close>

theorem invalid_iv_after_expiry_check:
  assumes "parse_fields instrument = Inr (Some f)"
    and "strptime_dby_HMS (expiry_str f) = Some expiry_dt"
    and "snapshot_now utcnow snapshot_date_str = Some now"
    and "0 < total_seconds expiry_dt now"
    and "iv = None \<or> (\<exists>v. iv = Some v \<and> le_zero v)"
  shows "calculate_greeks L utcnow instrument spot_price iv snapshot_date_str
           = Inr \<lparr>delta = Fin 0, gamma = Fin 0, vega = Fin 0, theta = Fin 0, tag = Invalid_IV\<rparr>"
proof -
  from assms(5) have "invalid_iv iv"
    by (auto simp: invalid_iv_def)
  with assms(1) time_to_expiry_Time_left [OF assms(2-4)] show ?thesis
    by (simp add: calculate_greeks_def zeroed_def)
qed

theorem invalid_iv_after_expiry_check_witness:
  "parse_fields ''BTC-27MAR26-80000-C''
     = Inr (Some \<lparr>strike = Fin 80000, option_type = CHR ''c'', expiry_str = ''27MAR26 08:00:00''\<rparr>)
   \<and> strptime_dby_HMS ''27MAR26 08:00:00''
     = Some \<lparr>year = 2026, month = 3, day = 27, hour = 8, minute = 0, second = 0, microsecond = 0\<rparr>
   \<and> snapshot_now (at_date 2026 2 3) None = Some (at_date 2026 2 3)
   \<and> 0 < total_seconds \<lparr>year = 2026, month = 3, day = 27, hour = 8, minute = 0, second = 0, microsecond = 0\<rparr>
           (at_date 2026 2 3)
   \<and> le_zero (Fin (- 5))
   \<and> calculate_greeks sample_lib (at_date 2026 2 3) ''BTC-27MAR26-80000-C'' (Fin 100000)
         (Some (Fin (- 5))) None
     = Inr \<lparr>delta = Fin 0, gamma = Fin 0, vega = Fin 0, theta = Fin 0, tag = Invalid_IV\<rparr>
   \<and> calculate_greeks sample_lib (at_date 2026 2 3) ''BTC-27MAR26-80000-C'' (Fin 100000)
         None None
     = Inr \<lparr>delta = Fin 0, gamma = Fin 0, vega = Fin 0, theta = Fin 0, tag = Invalid_IV\<rparr>"
proof -
  have now: "snapshot_now (at_date 2026 2 3) None = Some (at_date 2026 2 3)"
    by (simp add: snapshot_now_def)
  have pos: "0 < total_seconds \<lparr>year = 2026, month = 3, day = 27, hour = 8, minute = 0, second = 0, microsecond = 0\<rparr>
           (at_date 2026 2 3)"
    by (simp add: date_defs)
  have iv1: "Some (Fin (- 5)) = None \<or> (\<exists>v. Some (Fin (- 5)) = Some v \<and> le_zero v)"
    by simp
  have iv2: "(None :: pyfloat option) = None \<or> (\<exists>v. None = Some v \<and> le_zero v)"
    by simp
  from invalid_iv_after_expiry_check [OF parse_fields_sample _ now pos iv1]
       invalid_iv_after_expiry_check [OF parse_fields_sample _ now pos iv2]
       now pos
  show ?thesis
    by (simp add: parse_fields_sample strptime_expiry_sample)
qed

section \<open>The success path of \<open>calculate_greeks\<close>\<close>

text \<open>What \<open>round\<close> returns has \<open>n\<close> decimal places and is within half a unit of the last one.\<close>

lemma round_half_even_bounds: "\<bar>real_of_int (round_half_even x) - x\<bar> \<le> 1 / 2"
  unfolding round_half_even_def Let_def by (auto simp: abs_if split: if_splits) linarith+

lemma py_round_places:
  assumes "py_round (Fin x) n = Fin y"
  shows "(\<exists>k::int. y = real_of_int k / 10 ^ n) \<and> \<bar>y - x\<bar> \<le> 1 / (2 * 10 ^ n)"
proof -
  let ?k = "round_half_even (x * 10 ^ n)"
  from assms have y: "y = real_of_int ?k / 10 ^ n" by simp
  have b: "\<bar>real_of_int ?k - x * 10 ^ n\<bar> \<le> 1 / 2" by (rule round_half_even_bounds)
  have "\<bar>real_of_int ?k - x * 10 ^ n\<bar> / 10 ^ n \<le> (1 / 2) / 10 ^ n"
    by (rule divide_right_mono [OF b]) simp
  moreover have "\<bar>real_of_int ?k - x * 10 ^ n\<bar> / 10 ^ n = \<bar>y - x\<bar>"
  proof -
    have "y - x = (real_of_int ?k - x * 10 ^ n) / 10 ^ n"
      unfolding y by (simp add: diff_divide_distrib)
    then show ?thesis by (simp add: abs_divide)
  qed
  moreover have "(1 / 2) / (10::real) ^ n = 1 / (2 * 10 ^ n)" by simp
  ultimately have "\<bar>y - x\<bar> \<le> 1 / (2 * 10 ^ n)" by simp
  with y show ?thesis by blast
qed

lemma positive_iv_valid: "0 < x \<Longrightarrow> \<not> invalid_iv (Some (Fin x))"
  by (simp add: invalid_iv_def)




section \<open>The success path of \<open>calculate_iv_from_price\<close>\<close>




section \<open>Dependence on the clock\<close>

lemma time_to_expiry_sample_clock:
  "time_to_expiry (at_date 2026 2 3) ''27MAR26 08:00:00'' None
     = Time_left (4521600 / (365.25 * 24 * 3600))"
  by (simp add: time_to_expiry_def strptime_expiry_sample snapshot_now_def date_defs)

text \<open>
  C9, as stated, fails: with no as-of string, two calls with the same arguments give
  different results when the clock reads 3 February 2026 at one and 2 April 2026 at the
  other, since the instrument expires in between.
\<close>

theorem clock_dependence_counterexample:
  "calculate_greeks sample_lib (at_date 2026 2 3) ''BTC-27MAR26-80000-C'' (Fin 100000)
       (Some (Fin 65.5)) None
     \<noteq> calculate_greeks sample_lib (at_date 2026 4 2) ''BTC-27MAR26-80000-C'' (Fin 100000)
       (Some (Fin 65.5)) None
   \<and> calculate_iv_from_price sample_lib (at_date 2026 2 3) ''BTC-27MAR26-80000-C'' (Fin 100000)
       (Fin 0.05) None
     \<noteq> calculate_iv_from_price sample_lib (at_date 2026 4 2) ''BTC-27MAR26-80000-C'' (Fin 100000)
       (Fin 0.05) None"
  by (simp add: calculate_greeks_def calculate_iv_from_price_def parse_fields_sample
        time_to_expiry_sample_clock time_to_expiry_sample_expired invalid_iv_def
        greeks_try_def sample_lib_def zeroed_def)

lemma time_to_expiry_clock_free:
  assumes "s \<noteq> []"
  shows "time_to_expiry utcnow e (Some s) = time_to_expiry utcnow' e (Some s)"
proof -
  from assms have "snapshot_now utcnow (Some s) = snapshot_now utcnow' (Some s)"
    by (simp add: snapshot_now_def)
  then show ?thesis
    by (simp only: time_to_expiry_def)
qed

text \<open>
  C9, amended. When a non-empty as-of string is given, the results of \<open>calculate_greeks\<close>
  and of \<open>calculate_iv_from_price\<close> are determined by the arguments: they do not depend on
  the clock. (When the as-of string is absent or empty both functions read the current UTC
  time, and the result depends on it.)
\<close>

theorem as_of_given_deterministic:
  assumes "snapshot_date_str = Some s" and "s \<noteq> []"
  shows "calculate_greeks L utcnow instrument spot_price iv snapshot_date_str
           = calculate_greeks L utcnow' instrument spot_price iv snapshot_date_str
       \<and> calculate_iv_from_price L utcnow instrument spot_price option_price snapshot_date_str
           = calculate_iv_from_price L utcnow' instrument spot_price option_price snapshot_date_str"
  unfolding assms(1) calculate_greeks_def calculate_iv_from_price_def
    time_to_expiry_clock_free [OF assms(2), of utcnow _ utcnow']
  by simp

theorem as_of_given_deterministic_witness:
  "''2026-02-03 12:00:00'' \<noteq> []
   \<and> calculate_greeks sample_lib (at_date 2026 2 3) ''BTC-27MAR26-80000-C'' (Fin 100000)
         (Some (Fin 65.5)) (Some ''2026-02-03 12:00:00'')
     = calculate_greeks sample_lib (at_date 2026 4 2) ''BTC-27MAR26-80000-C'' (Fin 100000)
         (Some (Fin 65.5)) (Some ''2026-02-03 12:00:00'')
   \<and> calculate_iv_from_price sample_lib (at_date 2026 2 3) ''BTC-27MAR26-80000-C'' (Fin 100000)
         (Fin 0.05) (Some ''2026-02-03 12:00:00'')
     = calculate_iv_from_price sample_lib (at_date 2026 4 2) ''BTC-27MAR26-80000-C'' (Fin 100000)
         (Fin 0.05) (Some ''2026-02-03 12:00:00'')"
proof -
  have ne: "''2026-02-03 12:00:00'' \<noteq> []" by simp
  from as_of_given_deterministic [OF refl ne] ne show ?thesis by blast
qed

section \<open>An as-of date without a time of day\<close>

lemma strptime_Ymd_nonempty: "strptime_Ymd s = Some dt \<Longrightarrow> s \<noteq> []"
  by (auto simp: strptime_Ymd_def rx_Ymd_def rx_Y_def first_full_match_def)

lemma mk_datetime_midnight:
  "mk_datetime y m d 0 0 0 = Some dt \<Longrightarrow> hour dt = 0 \<and> minute dt = 0 \<and> second dt = 0"
  by (auto simp: mk_datetime_def split: if_splits)

lemma strptime_dby_midnight:
  "strptime_dby e = Some dt \<Longrightarrow> hour dt = 0 \<and> minute dt = 0 \<and> second dt = 0"
  by (auto simp: strptime_dby_def split: option.splits dest: mk_datetime_midnight)

lemma total_seconds_settlement:
  "hour dt = 0 \<Longrightarrow> total_seconds (dt\<lparr>hour := 8\<rparr>) dt = 8 * 3600"
  by (simp add: total_seconds_def diff_microseconds_def toordinal_def seconds_of_day_def)

text \<open>
  C10. An as-of string without a space is parsed as a bare date, which is midnight of that
  day. When it is the instrument's own expiry date, the time to expiry is the eight hours
  to the settlement instant, which is positive: \<open>calculate_greeks\<close> goes on to validate the
  IV and \<open>calculate_iv_from_price\<close> goes on to call the solver, both with that \<open>t\<close>.
\<close>

theorem as_of_on_expiry_date:
  assumes "split_on (CHR ''-'') instrument = [u, e, k, c]"
    and "py_float k = Some x"
    and "strptime_dby e = Some dt"
    and "CHR '' '' \<notin> set s"
    and "strptime_Ymd s = Some dt"
    and "flag = (if c = ''C'' then CHR ''c'' else CHR ''p'')"
    and "t = 8 * 3600 / (365.25 * 24 * 3600)"
  shows "snapshot_now utcnow (Some s) = Some dt \<and> hour dt = 0 \<and> minute dt = 0 \<and> second dt = 0
       \<and> time_to_expiry utcnow (e @ '' 08:00:00'') (Some s) = Time_left t
       \<and> 0 < t
       \<and> calculate_greeks L utcnow instrument spot_price iv (Some s)
           = Inr (if invalid_iv iv then zeroed Invalid_IV
                  else greeks_try L flag spot_price x (Fin t) (Fin 0.05) (div_const (the iv) 100))
       \<and> calculate_iv_from_price L utcnow instrument spot_price option_price (Some s)
           = Inr (map_option (\<lambda>v. mul_const v 100)
                    (lib_implied_volatility L (py_mul option_price spot_price) spot_price x (Fin t)
                       (Fin 0.05) flag))"
proof -
  from assms(5) have ne: "s \<noteq> []"
    by (rule strptime_Ymd_nonempty)
  with assms(4,5) have now: "snapshot_now utcnow (Some s) = Some dt"
    by (simp add: snapshot_now_def)
  from assms(3) have mid: "hour dt = 0" "minute dt = 0" "second dt = 0"
    by (auto dest: strptime_dby_midnight)
  have exp: "strptime_dby_HMS (e @ '' 08:00:00'') = Some (dt\<lparr>hour := 8\<rparr>)"
    using assms(3) by (rule strptime_settle)
  have ts: "total_seconds (dt\<lparr>hour := 8\<rparr>) dt = 8 * 3600"
    using mid(1) by (rule total_seconds_settlement)
  have tte: "time_to_expiry utcnow (e @ '' 08:00:00'') (Some s) = Time_left t"
    unfolding assms(7) by (simp add: time_to_expiry_def exp now ts)
  have pf: "parse_fields instrument
              = Inr (Some \<lparr>strike = x, option_type = flag, expiry_str = e @ '' 08:00:00''\<rparr>)"
    using assms(1,2,6) by (simp add: parse_fields_def)
  have g: "calculate_greeks L utcnow instrument spot_price iv (Some s)
           = Inr (if invalid_iv iv then zeroed Invalid_IV
                  else greeks_try L flag spot_price x (Fin t) (Fin 0.05) (div_const (the iv) 100))"
    by (simp add: calculate_greeks_def pf tte)
  have i: "calculate_iv_from_price L utcnow instrument spot_price option_price (Some s)
           = Inr (map_option (\<lambda>v. mul_const v 100)
                    (lib_implied_volatility L (py_mul option_price spot_price) spot_price x (Fin t)
                       (Fin 0.05) flag))"
    by (simp add: calculate_iv_from_price_def pf tte split: option.splits)
  have "0 < t" unfolding assms(7) by simp
  with now mid tte g i show ?thesis by simp
qed

theorem as_of_on_expiry_date_witness:
  "split_on (CHR ''-'') ''BTC-27MAR26-80000-C'' = [''BTC'', ''27MAR26'', ''80000'', ''C'']
   \<and> py_float ''80000'' = Some (Fin 80000)
   \<and> strptime_dby ''27MAR26'' = Some (at_date 2026 3 27)
   \<and> CHR '' '' \<notin> set ''2026-03-27''
   \<and> strptime_Ymd ''2026-03-27'' = Some (at_date 2026 3 27)
   \<and> time_to_expiry (at_date 2026 4 2) ''27MAR26 08:00:00'' (Some ''2026-03-27'')
       = Time_left (8 * 3600 / (365.25 * 24 * 3600))
   \<and> calculate_greeks sample_lib (at_date 2026 4 2) ''BTC-27MAR26-80000-C'' (Fin 100000)
         (Some (Fin 65.5)) (Some ''2026-03-27'')
     = Inr \<lparr>delta = Fin 0.2183, gamma = Fin 0.218333, vega = Fin 0.2183, theta = Fin 0.2183,
            tag = Computed\<rparr>
   \<and> calculate_iv_from_price sample_lib (at_date 2026 4 2) ''BTC-27MAR26-80000-C'' (Fin 100000)
         (Fin 0.05) (Some ''2026-03-27'') = Inr (Some (Fin 500000))"
proof -
  have h1: "split_on (CHR ''-'') ''BTC-27MAR26-80000-C'' = [''BTC'', ''27MAR26'', ''80000'', ''C'']"
    by simp
  have h2: "py_float ''80000'' = Some (Fin 80000)"
    by (simp add: float_defs)
  have h3: "strptime_dby ''27MAR26'' = Some (at_date 2026 3 27)"
    by (simp add: strptime_dby_def rx_defs date_defs)
  have h4: "CHR '' '' \<notin> set ''2026-03-27''"
    by simp
  from as_of_on_expiry_date [OF h1 h2 h3 h4 strptime_Ymd_sample refl refl,
         of "at_date 2026 4 2" sample_lib "Fin 100000" "Some (Fin 65.5)" "Fin 0.05"]
       h1 h2 h3 h4
  show ?thesis
    by (simp add: strptime_Ymd_sample invalid_iv_def greeks_try_def sample_lib_def
          round_half_even_def Let_def)
qed

end
